theory Spec2Isabelle
  imports Main
begin

section \<open>The authselect module: state reader and module run\<close>

text \<open>
  A shallow embedding of \<^verbatim>\<open>plugins/modules/authselect.py\<close>: the function
  \<^verbatim>\<open>get_authselect_state\<close>, which runs \<^verbatim>\<open>authselect current --raw\<close> and parses
  its output with two regular expressions, and \<^verbatim>\<open>run_module\<close>, which builds the
  result dictionary handed back to Ansible.

  Strings are \<^typ>\<open>string\<close>; the tool is run with \<^verbatim>\<open>LANG=C\<close>, and on the ASCII
  characters it prints the class \<^verbatim>\<open>\w\<close> is letters, digits and the underscore
  in Python 2 and Python 3 alike.
\<close>

subsection \<open>Character classes of the two patterns\<close>

definition newline :: char where
  "newline = CHR 0x0A"

definition is_word :: "char \<Rightarrow> bool" where
  "is_word c =
     (let n = (of_char c :: nat)
      in (48 \<le> n \<and> n \<le> 57) \<or> (65 \<le> n \<and> n \<le> 90) \<or> n = 95 \<or> (97 \<le> n \<and> n \<le> 122))"

datatype cclass = Word | NonWord | AnyButNewline

fun in_class :: "cclass \<Rightarrow> char \<Rightarrow> bool" where
  "in_class Word c = is_word c"
| "in_class NonWord c = (\<not> is_word c)"
| "in_class AnyButNewline c = (c \<noteq> newline)"

subsection \<open>A backtracking matcher for the pattern of \<^verbatim>\<open>re.match\<close>\<close>

text \<open>
  The pattern \<^verbatim>\<open>^(?P<profile>\w+)\W+(?P<features>.*)$\<close> is a sequence of anchors
  and greedy repetitions of a character class, two of them named groups. A greedy
  repetition first takes the longest run and gives characters back one at a time
  while the rest of the pattern fails. Without \<^verbatim>\<open>re.MULTILINE\<close>, \<^verbatim>\<open>^\<close> holds at
  position 0 only and \<^verbatim>\<open>$\<close> holds at the end of the string or just before a
  newline that ends the string; without \<^verbatim>\<open>re.DOTALL\<close> the dot is any character
  but a newline.
\<close>

datatype rep = Plus cclass | Star cclass

datatype node = Caret | Dollar | Rep rep | Group string rep

type_synonym groups = "(string \<times> string) list"

fun rep_class :: "rep \<Rightarrow> cclass" where
  "rep_class (Plus k) = k"
| "rep_class (Star k) = k"

fun min_count :: "rep \<Rightarrow> nat" where
  "min_count (Plus k) = 1"
| "min_count (Star k) = 0"

definition candidates :: "rep \<Rightarrow> string \<Rightarrow> nat list" where
  "candidates r s =
     rev [min_count r ..< Suc (length (takeWhile (in_class (rep_class r)) s))]"

fun bind_group :: "string option \<Rightarrow> string \<Rightarrow> groups \<Rightarrow> groups" where
  "bind_group None v g = g"
| "bind_group (Some name) v g = (name, v) # g"

fun re_match_from :: "node list \<Rightarrow> nat \<Rightarrow> string \<Rightarrow> groups \<Rightarrow> groups option"
  and try_counts ::
    "string option \<Rightarrow> node list \<Rightarrow> nat \<Rightarrow> string \<Rightarrow> groups \<Rightarrow> nat list \<Rightarrow> groups option"
where
  "re_match_from [] pos s g = Some g"
| "re_match_from (Caret # ps) pos s g =
     (if pos = 0 then re_match_from ps pos s g else None)"
| "re_match_from (Dollar # ps) pos s g =
     (if s = [] \<or> s = [newline] then re_match_from ps pos s g else None)"
| "re_match_from (Rep r # ps) pos s g = try_counts None ps pos s g (candidates r s)"
| "re_match_from (Group name r # ps) pos s g =
     try_counts (Some name) ps pos s g (candidates r s)"
| "try_counts name ps pos s g [] = None"
| "try_counts name ps pos s g (j # js) =
     (case re_match_from ps (pos + j) (drop j s) (bind_group name (take j s) g) of
        Some g' \<Rightarrow> Some g'
      | None \<Rightarrow> try_counts name ps pos s g js)"

definition re_match :: "node list \<Rightarrow> string \<Rightarrow> groups option" where
  "re_match pat s = re_match_from pat 0 s []"

definition pas_re :: "node list" where
  "pas_re =
     [Caret, Group ''profile'' (Plus Word), Rep (Plus NonWord),
      Group ''features'' (Star AnyButNewline), Dollar]"

subsection \<open>\<^verbatim>\<open>re.compile(r'\W+').split\<close> and \<^verbatim>\<open>str.rstrip\<close>\<close>

text \<open>
  \<^verbatim>\<open>split\<close> cuts the string at every maximal run of non-word characters and
  returns the pieces between the runs, empty pieces included: the empty string gives
  one empty piece.
\<close>

function re_split_nonword :: "string \<Rightarrow> string list" where
  "re_split_nonword s =
     (if dropWhile is_word s = [] then [s]
      else takeWhile is_word s
             # re_split_nonword (dropWhile (\<lambda>c. \<not> is_word c) (dropWhile is_word s)))"
  by pat_completeness auto
termination
proof (relation "measure length")
  show "wf (measure length)" by simp
next
  fix s :: string
  assume ne: "dropWhile is_word s \<noteq> []"
  then obtain x xs where r: "dropWhile is_word s = x # xs"
    by (cases "dropWhile is_word s") auto
  then have "\<not> is_word x"
    using hd_dropWhile [of is_word s] by simp
  then have "length (dropWhile (\<lambda>c. \<not> is_word c) (dropWhile is_word s)) \<le> length xs"
    using r by (simp add: length_dropWhile_le)
  moreover have "length (x # xs) \<le> length s"
    using r length_dropWhile_le [of is_word s] by simp
  ultimately show "(dropWhile (\<lambda>c. \<not> is_word c) (dropWhile is_word s), s) \<in> measure length"
    by simp
qed

definition rstrip :: "string \<Rightarrow> string \<Rightarrow> string" where
  "rstrip chars s = rev (dropWhile (\<lambda>c. c \<in> set chars) (rev s))"

subsection \<open>The host and \<^verbatim>\<open>run_command\<close>\<close>

text \<open>
  The only command the module runs is the read-only query. The host is its reply
  (exit code, standard output, standard error) and the list of commands run so far.
\<close>

record system =
  current_reply :: "int \<times> string \<times> string"
  invoked :: "string list list"

definition run_command :: "string list \<Rightarrow> system \<Rightarrow> (int \<times> string \<times> string) \<times> system" where
  "run_command argv m = (current_reply m, m\<lparr>invoked := invoked m @ [argv]\<rparr>)"

definition query_argv :: "string list" where
  "query_argv = [''/usr/bin/authselect'', ''current'', ''--raw'']"

definition unconfigured_literal :: string where
  "unconfigured_literal = ''No existing configuration detected.'' @ [newline]"

subsection \<open>\<^verbatim>\<open>get_authselect_state\<close>\<close>

record authselect_state =
  st_profile :: "string option"
  st_features :: "string list option"
  st_msg :: string

text \<open>
  The two ways the function does not return: \<^verbatim>\<open>fail_json(rc=, stderr=, msg=)\<close>,
  which ends the process, and the \<^verbatim>\<open>AttributeError\<close> of \<^verbatim>\<open>pas_out.group\<close> when
  \<^verbatim>\<open>re.match\<close> gave \<^verbatim>\<open>None\<close>.
\<close>

datatype abort = QueryFail int string string | AttributeError

definition get_authselect_state :: "system \<Rightarrow> (abort + authselect_state) \<times> system" where
  "get_authselect_state m =
     (case run_command query_argv m of
        ((rc, std_out, std_err), m') \<Rightarrow>
          (if rc = 2 \<and> std_out = unconfigured_literal then
             Inr \<lparr>st_profile = None, st_features = None,
                  st_msg = rstrip [newline, CHR 0x0D] std_out\<rparr>
           else if rc = 2 \<and> std_err = [] then
             (case re_match pas_re std_out of
                None \<Rightarrow> Inl AttributeError
              | Some pas_out \<Rightarrow>
                  Inr \<lparr>st_profile = map_of pas_out ''profile'',
                       st_features = map_option re_split_nonword (map_of pas_out ''features''),
                       st_msg = ''OK''\<rparr>)
           else
             Inl (QueryFail rc std_err
                    (''Failed to execute authselect command with '' @ [CHR 0x27]
                       @ std_err @ [CHR 0x27] @ ''.'')),
           m'))"

subsection \<open>\<^verbatim>\<open>run_module\<close>\<close>

record params =
  params_profile :: string
  params_features :: "string list option"
  check_mode :: bool

text \<open>
  \<^verbatim>\<open>result['original_profile']\<close> starts as the string \<^verbatim>\<open>''\<close> and is overwritten
  with the dictionary that \<^verbatim>\<open>get_authselect_state\<close> returns; the key
  \<^verbatim>\<open>requested_profile\<close> exists only once it has been assigned.
\<close>

datatype py_value = Str string | StateDict authselect_state

record result =
  changed :: bool
  original_profile :: py_value
  res_features :: "string list"
  requested_profile :: "string option"

datatype outcome = Exit_json result | Fail_json string result | Aborted abort

definition seed_result :: result where
  "seed_result =
     \<lparr>changed = False, original_profile = Str [], res_features = [],
      requested_profile = None\<rparr>"

definition run_module :: "params \<Rightarrow> system \<Rightarrow> outcome \<times> system" where
  "run_module module m =
     (if check_mode module then (Exit_json seed_result, m)
      else
        (case get_authselect_state m of
           (Inl a, m') \<Rightarrow> (Aborted a, m')
         | (Inr st, m') \<Rightarrow>
             (let result = seed_result\<lparr>original_profile := StateDict st\<rparr>;
                  result = result\<lparr>requested_profile := Some (params_profile module)\<rparr>
              in if params_profile module = ''fail me''
                 then (Fail_json ''You requested this to fail'' result, m')
                 else (Exit_json result, m'))))"

section \<open>Unfolding the model\<close>

lemmas eval_defs = run_module_def get_authselect_state_def run_command_def query_argv_def
  unconfigured_literal_def rstrip_def seed_result_def re_match_def pas_re_def candidates_def
  is_word_def newline_def Let_def

section \<open>What a successful match binds\<close>

text \<open>
  Each alternative that a greedy repetition tries is one of its candidate counts; a
  successful match of the reader's pattern binds both groups, and the profile group
  is never empty.
\<close>

lemma try_counts_Some:
  "try_counts name ps pos s g js = Some g' \<Longrightarrow>
   \<exists>j \<in> set js. re_match_from ps (pos + j) (drop j s) (bind_group name (take j s) g) = Some g'"
  by (induction js) (auto split: option.splits)

lemma candidates_bounds:
  "j \<in> set (candidates r s) \<Longrightarrow>
   min_count r \<le> j \<and> j \<le> length (takeWhile (in_class (rep_class r)) s)"
  by (auto simp: candidates_def)

lemma pas_re_groups:
  assumes "re_match pas_re s = Some g"
  shows "\<exists>p f. g = [(''features'', f), (''profile'', p)] \<and> p \<noteq> []"
proof -
  from assms obtain j1 where j1: "j1 \<in> set (candidates (Plus Word) s)"
    and m1: "re_match_from [Rep (Plus NonWord), Group ''features'' (Star AnyButNewline), Dollar]
               j1 (drop j1 s) [(''profile'', take j1 s)] = Some g"
    by (auto simp: re_match_def pas_re_def dest!: try_counts_Some)
  from m1 obtain j2 where
    m2: "re_match_from [Group ''features'' (Star AnyButNewline), Dollar]
               (j1 + j2) (drop j2 (drop j1 s)) [(''profile'', take j1 s)] = Some g"
    by (auto dest!: try_counts_Some)
  from m2 obtain j3 where
    m3: "re_match_from [Dollar] (j1 + j2 + j3) (drop j3 (drop j2 (drop j1 s)))
           [(''features'', take j3 (drop j2 (drop j1 s))), (''profile'', take j1 s)] = Some g"
    by (auto dest!: try_counts_Some)
  from m3 have g: "g = [(''features'', take j3 (drop j2 (drop j1 s))), (''profile'', take j1 s)]"
    by (auto split: if_splits)
  from candidates_bounds [OF j1]
  have "1 \<le> j1" and "j1 \<le> length (takeWhile (in_class Word) s)"
    by auto
  moreover have "length (takeWhile (in_class Word) s) \<le> length s"
    by (rule length_takeWhile_le)
  ultimately have "take j1 s \<noteq> []" by auto
  with g show ?thesis by blast
qed

section \<open>Output outside the expected shape\<close>

text \<open>
  A profile name followed by separators only is matched at the first alternative of
  every repetition, with an empty features group, and the reader then returns a
  feature list of one empty string; output that the pattern does not match always
  raises.
\<close>

lemma candidates_greedy:
  "min_count r \<le> length (takeWhile (in_class (rep_class r)) s) \<Longrightarrow>
   candidates r s
   = length (takeWhile (in_class (rep_class r)) s)
       # rev [min_count r ..< length (takeWhile (in_class (rep_class r)) s)]"
  by (simp add: candidates_def)

lemma takeWhile_run:
  assumes "\<forall>c\<in>set xs. P c" and "ys = [] \<or> \<not> P (hd ys)"
  shows "takeWhile P (xs @ ys) = xs" and "dropWhile P (xs @ ys) = ys"
  using assms by (cases ys; simp)+

lemma profile_then_separators_match:
  assumes p: "p \<noteq> []" "\<forall>c\<in>set p. is_word c"
    and seps: "seps \<noteq> []" "\<forall>c\<in>set seps. \<not> is_word c"
  shows "re_match pas_re (p @ seps) = Some [(''features'', []), (''profile'', p)]"
proof -
  have hd: "\<not> is_word (hd seps)" using seps by (cases seps) auto
  have tw: "takeWhile (in_class Word) (p @ seps) = p"
    using takeWhile_run(1) [of p "in_class Word" seps] p hd by simp
  have ts: "takeWhile (in_class NonWord) seps = seps"
    using takeWhile_run(1) [of seps "in_class NonWord" "[]"] seps by simp
  have n1: "1 \<le> length p" using p by (cases p) auto
  have n2: "1 \<le> length seps" using seps by (cases seps) auto
  have c1: "candidates (Plus Word) (p @ seps) = length p # rev [1 ..< length p]"
    using candidates_greedy [of "Plus Word" "p @ seps"] n1 by (simp add: tw)
  have c2: "candidates (Plus NonWord) seps = length seps # rev [1 ..< length seps]"
    using candidates_greedy [of "Plus NonWord" seps] n2 by (simp add: ts)
  have c3: "candidates (Star AnyButNewline) [] = [0]"
    by (simp add: candidates_def)
  show ?thesis
    by (simp add: re_match_def pas_re_def c1 c2 c3)
qed

lemma profile_then_separators_not_literal:
  assumes p: "\<forall>c\<in>set p. is_word c" and seps: "seps \<noteq> []" "\<forall>c\<in>set seps. \<not> is_word c"
  shows "p @ seps \<noteq> unconfigured_literal"
proof
  assume eq: "p @ seps = unconfigured_literal"
  have hd: "\<not> is_word (hd seps)" using seps by (cases seps) auto
  have "dropWhile is_word (p @ seps) = seps"
    using takeWhile_run(2) [of p is_word seps] p hd by simp
  with eq have "seps = dropWhile is_word unconfigured_literal" by simp
  then have "CHR ''e'' \<in> set seps"
    by (simp add: unconfigured_literal_def is_word_def)
  with seps(2) show False by (auto simp: is_word_def)
qed

lemma empty_remainder_for_all:
  assumes p: "p \<noteq> []" "\<forall>c\<in>set p. is_word c"
    and seps: "seps \<noteq> []" "\<forall>c\<in>set seps. \<not> is_word c"
  shows "fst (get_authselect_state \<lparr>current_reply = (2, p @ seps, []), invoked = cmds\<rparr>)
         = Inr \<lparr>st_profile = Some p, st_features = Some [[]], st_msg = ''OK''\<rparr>"
  using profile_then_separators_match [OF p seps]
    profile_then_separators_not_literal [OF p(2) seps]
  by (simp add: get_authselect_state_def run_command_def)

lemma unmatched_output_for_all:
  assumes "std_out \<noteq> unconfigured_literal" and "re_match pas_re std_out = None"
  shows "fst (get_authselect_state \<lparr>current_reply = (2, std_out, []), invoked = cmds\<rparr>)
         = Inl AttributeError"
  using assms by (simp add: get_authselect_state_def run_command_def)

section \<open>The reader and the run leave the host as it is\<close>

lemma get_authselect_state_system:
  "snd (get_authselect_state m) = m\<lparr>invoked := invoked m @ [query_argv]\<rparr>"
  by (simp add: get_authselect_state_def run_command_def split: prod.splits)

lemma get_authselect_state_reply:
  "current_reply m' = current_reply m \<Longrightarrow>
   fst (get_authselect_state m') = fst (get_authselect_state m)"
  by (simp add: get_authselect_state_def run_command_def split: prod.splits)

lemma run_module_reply: "current_reply (snd (run_module module m)) = current_reply m"
  using get_authselect_state_system [of m]
  by (auto simp: run_module_def Let_def split: prod.splits sum.splits)

lemma run_module_outcome:
  "current_reply m' = current_reply m \<Longrightarrow> fst (run_module module m') = fst (run_module module m)"
  using get_authselect_state_reply [of m' m]
  by (auto simp: run_module_def Let_def split: prod.splits sum.splits)

lemma run_module_changed:
  "(case fst (run_module module m) of
      Exit_json r \<Rightarrow> \<not> changed r | Fail_json msg r \<Rightarrow> \<not> changed r | Aborted a \<Rightarrow> True)"
  by (auto simp: run_module_def Let_def seed_result_def split: prod.splits sum.splits)

lemma run_module_invoked:
  "invoked (snd (run_module module m))
   = (if check_mode module then invoked m else invoked m @ [query_argv])"
  using get_authselect_state_system [of m]
  by (auto simp: run_module_def Let_def split: prod.splits sum.splits)

lemma check_mode_result:
  "check_mode module \<Longrightarrow> run_module module m = (Exit_json seed_result, m)"
  by (simp add: run_module_def)

text \<open>
  What a successful result holds under \<^verbatim>\<open>original_profile\<close>: the initial empty string
  in check mode, the dictionary returned by the reader otherwise.
\<close>

lemma exit_json_original_profile:
  assumes "fst (run_module module m) = Exit_json r"
  shows "(check_mode module \<longrightarrow> original_profile r = Str [] \<and> res_features r = [])
       \<and> (\<not> check_mode module \<longrightarrow>
            (\<exists>st. fst (get_authselect_state m) = Inr st
                \<and> original_profile r = StateDict st \<and> res_features r = []
                \<and> st_profile st \<noteq> Some []
                \<and> (st_profile st = None \<longleftrightarrow> fst (snd (current_reply m)) = unconfigured_literal)
                \<and> (st_features st = None \<longleftrightarrow> st_profile st = None)))"
proof (cases "check_mode module")
  case True
  with assms show ?thesis by (auto simp: run_module_def seed_result_def)
next
  case False
  obtain rc std_out std_err where rep: "current_reply m = (rc, std_out, std_err)"
    by (cases "current_reply m") auto
  from assms False obtain st where st: "fst (get_authselect_state m) = Inr st"
    and r: "r = seed_result\<lparr>original_profile := StateDict st,
                            requested_profile := Some (params_profile module)\<rparr>"
    by (auto simp: run_module_def Let_def split: prod.splits sum.splits if_splits)
  have "st_profile st \<noteq> Some [] 
        \<and> (st_profile st = None \<longleftrightarrow> std_out = unconfigured_literal)
        \<and> (st_features st = None \<longleftrightarrow> st_profile st = None)"
  proof (cases "rc = 2 \<and> std_out = unconfigured_literal")
    case True
    with st rep show ?thesis
      by (auto simp: get_authselect_state_def run_command_def)
  next
    case False
    with st rep obtain g where g: "re_match pas_re std_out = Some g"
      and s: "st = \<lparr>st_profile = map_of g ''profile'',
                   st_features = map_option re_split_nonword (map_of g ''features''),
                   st_msg = ''OK''\<rparr>" and rc: "rc = 2"
      by (auto simp: get_authselect_state_def run_command_def split: if_splits option.splits)
    from pas_re_groups [OF g] obtain p f where "g = [(''features'', f), (''profile'', p)]" "p \<noteq> []"
      by blast
    with s False rc show ?thesis by auto
  qed
  with st r rep False show ?thesis by (auto simp: seed_result_def)
qed

section \<open>The state reader\<close>

text \<open>
  C5. When the query exits with code 2 and its standard output is exactly
  \<^verbatim>\<open>No existing configuration detected.\<close> followed by a newline, the reader returns
  the unconfigured state, profile and features both absent, whatever standard error
  holds; it does not fail.
\<close>

theorem unconfigured_detection:
  "fst (get_authselect_state
          \<lparr>current_reply = (2, ''No existing configuration detected.'' @ [newline], std_err),
           invoked = cmds\<rparr>)
   = Inr \<lparr>st_profile = None, st_features = None,
          st_msg = ''No existing configuration detected.''\<rparr>"
  by (simp add: get_authselect_state_def run_command_def unconfigured_literal_def
      rstrip_def newline_def)

text \<open>
  C3. The specification expects the output \<^verbatim>\<open>sssd with-sudo with-mkhomedir\<close> plus
  newline, under exit code 2, to be read as profile \<^verbatim>\<open>sssd\<close> with the two features
  \<^verbatim>\<open>with-sudo\<close> and \<^verbatim>\<open>with-mkhomedir\<close>. The reader splits the features at every
  run of non-word characters, and the hyphen is one: it returns the four pieces
  \<^verbatim>\<open>with\<close>, \<^verbatim>\<open>sudo\<close>, \<^verbatim>\<open>with\<close>, \<^verbatim>\<open>mkhomedir\<close>, none of which is a feature
  name of the kind the module's own example (\<^verbatim>\<open>with-sudo\<close>) passes in.
\<close>

theorem hyphenated_features_split:
  "fst (get_authselect_state
          \<lparr>current_reply = (2, ''sssd with-sudo with-mkhomedir'' @ [newline], []),
           invoked = []\<rparr>)
   = Inr \<lparr>st_profile = Some ''sssd'',
          st_features = Some [''with'', ''sudo'', ''with'', ''mkhomedir''],
          st_msg = ''OK''\<rparr>"
  by (simp add: eval_defs)

text \<open>
  C4. The specification expects output that the pattern does not match, under exit
  code 2 and empty standard error, to be reported as a failed query. The reader calls
  \<^verbatim>\<open>pas_out.group\<close> without testing \<^verbatim>\<open>pas_out\<close>, so on such output it raises
  \<^verbatim>\<open>AttributeError\<close> and \<^verbatim>\<open>fail_json\<close> is never reached: shown here for empty
  output and for a profile name with nothing after it.
\<close>

theorem unmatched_output_raises:
  "fst (get_authselect_state \<lparr>current_reply = (2, [], []), invoked = []\<rparr>)
     = Inl AttributeError
   \<and> fst (get_authselect_state \<lparr>current_reply = (2, ''sssd'', []), invoked = []\<rparr>)
     = Inl AttributeError"
  by (simp add: eval_defs)

text \<open>
  C9. The specification expects a profile followed by separators only to give an
  empty feature set. The features group is then the empty string, and splitting the
  empty string returns one piece, the empty string: the feature list has one
  element.
\<close>

theorem empty_remainder_one_empty_name:
  "fst (get_authselect_state
          \<lparr>current_reply = (2, ''sssd'' @ [newline], []), invoked = []\<rparr>)
   = Inr \<lparr>st_profile = Some ''sssd'', st_features = Some [[]], st_msg = ''OK''\<rparr>"
  by (simp add: eval_defs)

text \<open>
  C7. When the exit code is not 2, or it is 2 with standard error not empty and
  standard output not the unconfigured literal, the reader ends in \<^verbatim>\<open>fail_json\<close>
  with that exit code, that standard error, and a message that quotes the standard
  error unchanged; a run outside check mode ends there, having run the query and
  nothing else.
\<close>

theorem query_failed:
  assumes "rc \<noteq> 2 \<or> (rc = 2 \<and> std_err \<noteq> [] \<and> std_out \<noteq> unconfigured_literal)"
  shows "get_authselect_state \<lparr>current_reply = (rc, std_out, std_err), invoked = cmds\<rparr>
         = (Inl (QueryFail rc std_err
                   (''Failed to execute authselect command with '' @ [CHR 0x27]
                      @ std_err @ [CHR 0x27] @ ''.'')),
            \<lparr>current_reply = (rc, std_out, std_err), invoked = cmds @ [query_argv]\<rparr>)
       \<and> (\<not> check_mode module \<longrightarrow>
            run_module module \<lparr>current_reply = (rc, std_out, std_err), invoked = cmds\<rparr>
            = (Aborted (QueryFail rc std_err
                   (''Failed to execute authselect command with '' @ [CHR 0x27]
                      @ std_err @ [CHR 0x27] @ ''.'')),
               \<lparr>current_reply = (rc, std_out, std_err), invoked = cmds @ [query_argv]\<rparr>))"
  using assms by (auto simp: run_module_def get_authselect_state_def run_command_def)

theorem query_failed_witness:
  "get_authselect_state \<lparr>current_reply = (1, [], ''permission denied''), invoked = []\<rparr>
   = (Inl (QueryFail 1 ''permission denied''
            (''Failed to execute authselect command with '' @ [CHR 0x27]
               @ ''permission denied'' @ [CHR 0x27] @ ''.'')),
      \<lparr>current_reply = (1, [], ''permission denied''), invoked = [query_argv]\<rparr>)
   \<and> run_module
       \<lparr>params_profile = ''sssd'', params_features = None, check_mode = False\<rparr>
       \<lparr>current_reply = (1, [], ''permission denied''), invoked = []\<rparr>
   = (Aborted (QueryFail 1 ''permission denied''
            (''Failed to execute authselect command with '' @ [CHR 0x27]
               @ ''permission denied'' @ [CHR 0x27] @ ''.'')),
      \<lparr>current_reply = (1, [], ''permission denied''), invoked = [query_argv]\<rparr>)"
  using query_failed [of 1 "''permission denied''" "[]" "[]"
      "\<lparr>params_profile = ''sssd'', params_features = None, check_mode = False\<rparr>"]
  by simp

section \<open>The module run\<close>

text \<open>
  C1. The specification expects a run outside check mode, on a host that needs
  action, to run the commit command and to report \<^verbatim>\<open>changed = true\<close>. The module
  has no commit: on an unconfigured host, asked for \<^verbatim>\<open>sssd\<close> with \<^verbatim>\<open>with-sudo\<close>,
  it runs the query alone and exits with \<^verbatim>\<open>changed = False\<close>.
\<close>

theorem run_without_commit:
  "run_module
     \<lparr>params_profile = ''sssd'', params_features = Some [''with-sudo''], check_mode = False\<rparr>
     \<lparr>current_reply = (2, ''No existing configuration detected.'' @ [newline], []),
      invoked = []\<rparr>
   = (Exit_json
        \<lparr>changed = False,
         original_profile =
           StateDict \<lparr>st_profile = None, st_features = None,
                      st_msg = ''No existing configuration detected.''\<rparr>,
         res_features = [], requested_profile = Some ''sssd''\<rparr>,
      \<lparr>current_reply = (2, ''No existing configuration detected.'' @ [newline], []),
       invoked = [[''/usr/bin/authselect'', ''current'', ''--raw'']]\<rparr>)"
  by (simp add: eval_defs)

text \<open>
  C2. The specification expects a check-mode run on a host that needs action to run
  no commit and to report \<^verbatim>\<open>changed = true\<close>, with the state read before as its
  snapshot. The check-mode branch exits with the initial result before the host is
  read: on an unconfigured host, asked for \<^verbatim>\<open>sssd\<close>, no command is run, the host
  is untouched, and the result has \<^verbatim>\<open>changed = False\<close> and the empty string as
  \<^verbatim>\<open>original_profile\<close>.
\<close>

theorem check_mode_reports_unchanged:
  "run_module
     \<lparr>params_profile = ''sssd'', params_features = None, check_mode = True\<rparr>
     \<lparr>current_reply = (2, ''No existing configuration detected.'' @ [newline], []),
      invoked = []\<rparr>
   = (Exit_json
        \<lparr>changed = False, original_profile = Str [], res_features = [],
         requested_profile = None\<rparr>,
      \<lparr>current_reply = (2, ''No existing configuration detected.'' @ [newline], []),
       invoked = []\<rparr>)"
  by (simp add: eval_defs)

text \<open>
  C6. Running the module twice with the same parameters, the second run on the host
  as the first one left it, gives the same outcome both times, hence the same
  reported snapshot; the host answers the query as before; and whenever the second
  run hands back a result, its \<^verbatim>\<open>changed\<close> is false.
\<close>

theorem reconcile_twice:
  assumes "run_module module m = (o1, m1)" and "run_module module m1 = (o2, m2)"
  shows "o2 = o1 \<and> current_reply m2 = current_reply m
         \<and> (case o2 of Exit_json r \<Rightarrow> \<not> changed r | Fail_json msg r \<Rightarrow> \<not> changed r
            | Aborted a \<Rightarrow> True)"
proof -
  have r1: "current_reply m1 = current_reply m"
    using run_module_reply [of module m] assms(1) by simp
  have r2: "current_reply m2 = current_reply m1"
    using run_module_reply [of module m1] assms(2) by simp
  have "o2 = o1"
    using run_module_outcome [OF r1, of module] assms by simp
  moreover have "case o2 of Exit_json r \<Rightarrow> \<not> changed r | Fail_json msg r \<Rightarrow> \<not> changed r
            | Aborted a \<Rightarrow> True"
    using run_module_changed [of module m1] assms(2) by simp
  ultimately show ?thesis using r1 r2 by simp
qed

theorem reconcile_twice_witness:
  "run_module
     \<lparr>params_profile = ''sssd'', params_features = None, check_mode = False\<rparr>
     \<lparr>current_reply = (2, ''sssd with-sudo'' @ [newline], []), invoked = []\<rparr>
   = (Exit_json
        \<lparr>changed = False,
         original_profile =
           StateDict \<lparr>st_profile = Some ''sssd'', st_features = Some [''with'', ''sudo''],
                      st_msg = ''OK''\<rparr>,
         res_features = [], requested_profile = Some ''sssd''\<rparr>,
      \<lparr>current_reply = (2, ''sssd with-sudo'' @ [newline], []), invoked = [query_argv]\<rparr>)
   \<and> run_module
     \<lparr>params_profile = ''sssd'', params_features = None, check_mode = False\<rparr>
     \<lparr>current_reply = (2, ''sssd with-sudo'' @ [newline], []), invoked = [query_argv]\<rparr>
   = (Exit_json
        \<lparr>changed = False,
         original_profile =
           StateDict \<lparr>st_profile = Some ''sssd'', st_features = Some [''with'', ''sudo''],
                      st_msg = ''OK''\<rparr>,
         res_features = [], requested_profile = Some ''sssd''\<rparr>,
      \<lparr>current_reply = (2, ''sssd with-sudo'' @ [newline], []),
       invoked = [query_argv, query_argv]\<rparr>)"
proof -
  let ?p = "\<lparr>params_profile = ''sssd'', params_features = None, check_mode = False\<rparr>"
  let ?m = "\<lparr>current_reply = (2, ''sssd with-sudo'' @ [newline], []), invoked = []\<rparr>"
  let ?m1 = "\<lparr>current_reply = (2, ''sssd with-sudo'' @ [newline], []),
              invoked = [query_argv]\<rparr>"
  have h1: "run_module ?p ?m = (fst (run_module ?p ?m), ?m1)"
    by (simp add: run_module_def get_authselect_state_def run_command_def
        unconfigured_literal_def re_match_def pas_re_def candidates_def is_word_def
        newline_def Let_def)
  have h2: "run_module ?p ?m1 = (fst (run_module ?p ?m1), snd (run_module ?p ?m1))"
    by simp
  from reconcile_twice [OF h1 h2] have "fst (run_module ?p ?m1) = fst (run_module ?p ?m)"
    by simp
  moreover have "fst (run_module ?p ?m) = Exit_json
        \<lparr>changed = False,
         original_profile =
           StateDict \<lparr>st_profile = Some ''sssd'', st_features = Some [''with'', ''sudo''],
                      st_msg = ''OK''\<rparr>,
         res_features = [], requested_profile = Some ''sssd''\<rparr>"
    by (simp add: run_module_def get_authselect_state_def run_command_def
        unconfigured_literal_def re_match_def pas_re_def candidates_def is_word_def
        newline_def Let_def seed_result_def)
  moreover have "snd (run_module ?p ?m1) = \<lparr>current_reply = (2, ''sssd with-sudo'' @ [newline], []),
       invoked = [query_argv, query_argv]\<rparr>"
    by (simp add: run_module_def get_authselect_state_def run_command_def
        unconfigured_literal_def re_match_def pas_re_def candidates_def is_word_def
        newline_def Let_def)
  ultimately show ?thesis using h1 h2 by simp
qed

text \<open>
  C8. The specification expects \<^verbatim>\<open>original_profile\<close> to be the profile name read
  before the run, a string, and \<^verbatim>\<open>original_features\<close> to be the features read.
  The module assigns the whole dictionary returned by the reader to
  \<^verbatim>\<open>original_profile\<close> and never sets a features field from it: on a host
  configured with \<^verbatim>\<open>sssd\<close> the field is a dictionary, which is not the string
  \<^verbatim>\<open>sssd\<close>, and \<^verbatim>\<open>features\<close> is still the initial empty list.
\<close>

theorem original_profile_not_a_name:
  "fst (run_module
          \<lparr>params_profile = ''sssd'', params_features = None, check_mode = False\<rparr>
          \<lparr>current_reply = (2, ''sssd with-sudo'' @ [newline], []), invoked = []\<rparr>)
     = Exit_json
         \<lparr>changed = False,
          original_profile =
            StateDict \<lparr>st_profile = Some ''sssd'', st_features = Some [''with'', ''sudo''],
                       st_msg = ''OK''\<rparr>,
          res_features = [], requested_profile = Some ''sssd''\<rparr>
   \<and> original_profile
       (case fst (run_module
          \<lparr>params_profile = ''sssd'', params_features = None, check_mode = False\<rparr>
          \<lparr>current_reply = (2, ''sssd with-sudo'' @ [newline], []), invoked = []\<rparr>) of
          Exit_json r \<Rightarrow> r) \<noteq> Str ''sssd''"
  by (simp add: eval_defs)

text \<open>
  C10. Outside check mode, when the requested profile is exactly \<^verbatim>\<open>fail me\<close> and
  the reader returned a state, the module fails with the message
  \<^verbatim>\<open>You requested this to fail\<close>, whatever that state is.
\<close>

theorem fail_me:
  assumes "\<not> check_mode module" and "params_profile module = ''fail me''"
    and "fst (get_authselect_state m) = Inr st"
  shows "fst (run_module module m)
         = Fail_json ''You requested this to fail''
             \<lparr>changed = False, original_profile = StateDict st, res_features = [],
              requested_profile = Some ''fail me''\<rparr>"
  using assms by (auto simp: run_module_def Let_def seed_result_def split: prod.splits sum.splits)

theorem fail_me_witness:
  "fst (run_module
          \<lparr>params_profile = ''fail me'', params_features = None, check_mode = False\<rparr>
          \<lparr>current_reply = (2, ''sssd with-sudo'' @ [newline], []), invoked = []\<rparr>)
   = Fail_json ''You requested this to fail''
       \<lparr>changed = False,
        original_profile =
          StateDict \<lparr>st_profile = Some ''sssd'', st_features = Some [''with'', ''sudo''],
                     st_msg = ''OK''\<rparr>,
        res_features = [], requested_profile = Some ''fail me''\<rparr>"
proof -
  have h: "fst (get_authselect_state
          \<lparr>current_reply = (2, ''sssd with-sudo'' @ [newline], []), invoked = []\<rparr>)
     = Inr \<lparr>st_profile = Some ''sssd'', st_features = Some [''with'', ''sudo''],
            st_msg = ''OK''\<rparr>"
    by (simp add: get_authselect_state_def run_command_def unconfigured_literal_def
        re_match_def pas_re_def candidates_def is_word_def newline_def)
  show ?thesis
    using fail_me [OF _ _ h,
        of "\<lparr>params_profile = ''fail me'', params_features = None, check_mode = False\<rparr>"]
    by simp
qed

end
